theory Spec2Isabelle
  imports Main
begin

section \<open>Errors and outcomes\<close>

text \<open>
  The Go functions return a value together with an \<open>error\<close>. An error is either built by
  \<open>errors.New\<close> with a message, or is the \<open>*strconv.NumError\<close> of \<open>strconv.ParseInt\<close>
  (invalid syntax, or value out of range).  A function that only returns errors is modelled
  with the sum type \<open>error + 'a\<close>.  \<open>Parse\<close> and \<open>parseTz\<close> also index the string
  (\<open>s[0]\<close>), which panics in Go when the string is empty: their result type \<open>outcome\<close>
  has the run-time panic as a third alternative.
\<close>

datatype error = New string | ErrSyntax | ErrRange

datatype 'a outcome = Panic | Err error | OK 'a

fun bind :: "'a outcome \<Rightarrow> ('a \<Rightarrow> 'b outcome) \<Rightarrow> 'b outcome" where
  "bind Panic f = Panic"
| "bind (Err e) f = Err e"
| "bind (OK x) f = f x"

text \<open>\<open>v, err := f(); if err != nil { return not, err }\<close>\<close>

fun lift :: "error + 'a \<Rightarrow> 'a outcome" where
  "lift (Inl e) = Err e"
| "lift (Inr x) = OK x"

text \<open>The index expression \<open>s[0]\<close>: a run-time panic on the empty string.\<close>

fun at0 :: "string \<Rightarrow> char outcome" where
  "at0 [] = Panic"
| "at0 (c # cs) = OK c"

fun is_Err :: "'a outcome \<Rightarrow> bool" where
  "is_Err (Err e) = True"
| "is_Err Panic = False"
| "is_Err (OK x) = False"

section \<open>The standard library's \<open>strconv.ParseInt\<close>, base 10\<close>

text \<open>
  Bytes are compared by their code, as Go compares them: \<open>'0' <= c && c <= '9'\<close>.
\<close>

definition is_digit :: "char \<Rightarrow> bool" where
  "is_digit c = (48 \<le> (of_char c :: nat) \<and> (of_char c :: nat) \<le> 57)"

definition digit_val :: "char \<Rightarrow> nat" where
  "digit_val c = of_char c - 48"

text \<open>
  The digit loop of \<open>strconv.ParseUint(s, 10, bitSize)\<close>: a byte that is no decimal digit
  is a syntax error, a value above \<open>maxVal = 2^bitSize - 1\<close> is a range error.
\<close>

fun ParseUint_loop :: "nat \<Rightarrow> nat \<Rightarrow> string \<Rightarrow> error + nat" where
  "ParseUint_loop maxVal n [] = Inr n"
| "ParseUint_loop maxVal n (c # cs) =
     (if \<not> is_digit c then Inl ErrSyntax
      else if n * 10 + digit_val c > maxVal then Inl ErrRange
      else ParseUint_loop maxVal (n * 10 + digit_val c) cs)"

definition ParseUint :: "string \<Rightarrow> nat \<Rightarrow> error + nat" where
  "ParseUint s bitSize =
     (if s = [] then Inl ErrSyntax else ParseUint_loop (2 ^ bitSize - 1) 0 s)"

text \<open>
  \<open>strconv.ParseInt(s, 10, bitSize)\<close>: the empty string is a syntax error; one leading
  \<open>+\<close> or \<open>-\<close> is picked off; the rest is read by \<open>ParseUint\<close>; the magnitude must fit
  the signed range.
\<close>

definition ParseInt :: "string \<Rightarrow> nat \<Rightarrow> error + int" where
  "ParseInt s bitSize =
     (case s of
        [] \<Rightarrow> Inl ErrSyntax
      | c # cs \<Rightarrow>
          (let neg = (c = CHR ''-'');
               s' = (if c = CHR ''+'' then cs else if c = CHR ''-'' then cs else s);
               cutoff = (2::nat) ^ (bitSize - 1)
           in case ParseUint s' bitSize of
                Inl ErrSyntax \<Rightarrow> Inl ErrSyntax
              | Inl e \<Rightarrow> Inl ErrRange
              | Inr un \<Rightarrow>
                  if \<not> neg \<and> un \<ge> cutoff then Inl ErrRange
                  else if neg \<and> un > cutoff then Inl ErrRange
                  else Inr (if neg then - int un else int un)))"

section \<open>exactInt\<close>

text \<open>
  \<open>exactInt(s, l)\<close> reads the first \<open>l\<close> bytes of \<open>s\<close> with \<open>strconv.ParseInt\<close> and
  returns the number and the rest \<open>s[l:]\<close>.
\<close>

definition exactInt :: "string \<Rightarrow> nat \<Rightarrow> error + (int \<times> string)" where
  "exactInt s l =
     (if length s < l then Inl (New ''not enough'')
      else case ParseInt (take l s) 64 of
             Inl err \<Rightarrow> Inl err
           | Inr i \<Rightarrow> Inr (i, drop l s))"

section \<open>parseFractionalSecond\<close>

text \<open>
  The loop \<open>for ; i < len(s) && i < 10 && '0' <= s[i] && s[i] <= '9'; i++\<close> with its
  three variables \<open>i\<close>, \<open>lastDigit\<close> and \<open>nsec\<close>; it returns their final values.
\<close>

function frac_loop :: "string \<Rightarrow> nat \<Rightarrow> int \<Rightarrow> int \<Rightarrow> nat \<times> int \<times> int" where
  "frac_loop s i lastDigit nsec =
     (if i < length s \<and> i < 10 \<and> is_digit (s ! i)
      then frac_loop s (i + 1) (int (digit_val (s ! i))) (nsec * 10 + int (digit_val (s ! i)))
      else (i, lastDigit, nsec))"
  by pat_completeness auto
termination
  by (relation "measure (\<lambda>(s, i, lastDigit, nsec). 10 - i)") auto

definition parseFractionalSecond :: "string \<Rightarrow> error + (int \<times> string)" where
  "parseFractionalSecond s =
     (case frac_loop s 0 0 0 of
        (i, lastDigit, nsec) \<Rightarrow>
          if i = 0 then Inl (New ''after . indicating fractional seconds there must be digit'')
          else if lastDigit = 0 then Inl (New (''fractional second must not end in '0'' @ [CHR 0x27]))
          else if i > 9 then
            Inl (New ''does not support fraction with precision smaller than 1e-9'')
          else if i < 9 then Inr (nsec * 10 ^ (9 - i), drop i s)
          else Inr (nsec, drop i s))"

section \<open>The standard library's \<open>time\<close> package\<close>

text \<open>
  A \<open>*time.Location\<close> is here either \<open>time.UTC\<close> or the result of
  \<open>time.FixedZone(name, offset)\<close>, with the offset in seconds east of UTC.
\<close>

datatype Location = UTC | FixedZone string int

fun zone_offset :: "Location \<Rightarrow> int" where
  "zone_offset UTC = 0"
| "zone_offset (FixedZone name offset) = offset"

text \<open>
  A \<open>time.Time\<close> is an instant (seconds since 1970-01-01T00:00:00Z and nanoseconds
  within the second) together with a location.
\<close>

record Time =
  t_unix :: int
  t_nsec :: int
  t_loc :: Location

text \<open>
  \<open>time.Date\<close> takes no error result: values outside their usual ranges are normalized
  (October 32 becomes November 1).  \<open>norm\<close> is the library's helper: it returns
  \<open>nhi, nlo\<close> with \<open>hi * base + lo == nhi * base + nlo\<close> and \<open>0 <= nlo < base\<close>.
  The divisions are on non-negative numbers, where Go's and HOL's division agree.
\<close>

definition norm :: "int \<Rightarrow> int \<Rightarrow> int \<Rightarrow> int \<times> int" where
  "norm hi lo base =
     (case (if lo < 0 then (hi - ((- lo - 1) div base + 1), lo + ((- lo - 1) div base + 1) * base)
            else (hi, lo)) of
        (hi, lo) \<Rightarrow>
          if lo \<ge> base then (hi + lo div base, lo - (lo div base) * base) else (hi, lo))"

definition isLeap :: "int \<Rightarrow> bool" where
  "isLeap year = (year mod 4 = 0 \<and> (year mod 100 \<noteq> 0 \<or> year mod 400 = 0))"

definition daysBefore :: "int list" where
  "daysBefore = [0, 31, 59, 90, 120, 151, 181, 212, 243, 273, 304, 334, 365]"

text \<open>
  Days from 0001-01-01 to January 1 of \<open>year\<close> in the proleptic Gregorian calendar, and
  the days before the month with index \<open>m\<close> (0 for January) within the year.
\<close>

definition daysSinceYear1 :: "int \<Rightarrow> int" where
  "daysSinceYear1 year =
     365 * (year - 1) + (year - 1) div 4 - (year - 1) div 100 + (year - 1) div 400"

definition monthStart :: "bool \<Rightarrow> nat \<Rightarrow> int" where
  "monthStart leap m = daysBefore ! m + (if leap \<and> m \<ge> 2 then 1 else 0)"

text \<open>Days from 0001-01-01 to 1970-01-01.\<close>

definition unixEpochDays :: int where
  "unixEpochDays = 719162"

definition Date :: "int \<Rightarrow> int \<Rightarrow> int \<Rightarrow> int \<Rightarrow> int \<Rightarrow> int \<Rightarrow> int \<Rightarrow> Location \<Rightarrow> Time" where
  "Date year month day hour minute sec nsec loc =
     (case norm year (month - 1) 12 of (year, m) \<Rightarrow>
      case norm sec nsec 1000000000 of (sec, nsec) \<Rightarrow>
      case norm minute sec 60 of (minute, sec) \<Rightarrow>
      case norm hour minute 60 of (hour, minute) \<Rightarrow>
      case norm day hour 24 of (day, hour) \<Rightarrow>
        \<lparr> t_unix = (daysSinceYear1 year + monthStart (isLeap year) (nat m) + (day - 1)
                     - unixEpochDays) * 86400
                    + hour * 3600 + minute * 60 + sec - zone_offset loc,
          t_nsec = nsec,
          t_loc = loc \<rparr>)"

text \<open>
  The accessors read the instant in the time's location: the seconds are shifted by the
  zone offset and split into a day number and the second of the day.
\<close>

definition localDays :: "Time \<Rightarrow> int" where
  "localDays t = (t_unix t + zone_offset (t_loc t)) div 86400 + unixEpochDays"

definition localSecs :: "Time \<Rightarrow> int" where
  "localSecs t = (t_unix t + zone_offset (t_loc t)) mod 86400"

text \<open>
  The civil date of a day number (days since 0001-01-01): 400-year, 100-year, 4-year
  cycles and single years, the last cycle of each kind being one day longer.
\<close>

definition yearOfDays :: "int \<Rightarrow> int \<times> int" where
  "yearOfDays d =
     (let n400 = d div 146097;
          d1 = d mod 146097;
          n100 = min 3 (d1 div 36524);
          d2 = d1 - 36524 * n100;
          n4 = d2 div 1461;
          d3 = d2 mod 1461;
          n1 = min 3 (d3 div 365)
      in (400 * n400 + 100 * n100 + 4 * n4 + n1 + 1, d3 - 365 * n1))"

text \<open>
  The index of the month (0 for January) that holds the day \<open>yday\<close> of the year: the
  number of the later months that have begun by then.
\<close>

definition monthOfYday :: "bool \<Rightarrow> int \<Rightarrow> nat" where
  "monthOfYday leap yday =
     length (filter (\<lambda>m. monthStart leap m \<le> yday) [1, 2, 3, 4, 5, 6, 7, 8, 9, 10, 11])"

definition Year :: "Time \<Rightarrow> int" where
  "Year t = fst (yearOfDays (localDays t))"

definition Month :: "Time \<Rightarrow> int" where
  "Month t =
     (case yearOfDays (localDays t) of
        (year, yday) \<Rightarrow> int (monthOfYday (isLeap year) yday) + 1)"

definition Day :: "Time \<Rightarrow> int" where
  "Day t =
     (case yearOfDays (localDays t) of
        (year, yday) \<Rightarrow>
          yday - monthStart (isLeap year) (monthOfYday (isLeap year) yday) + 1)"

definition Hour :: "Time \<Rightarrow> int" where
  "Hour t = localSecs t div 3600"

definition Minute :: "Time \<Rightarrow> int" where
  "Minute t = (localSecs t mod 3600) div 60"

definition Second :: "Time \<Rightarrow> int" where
  "Second t = localSecs t mod 60"

definition Nanosecond :: "Time \<Rightarrow> int" where
  "Nanosecond t = t_nsec t"

section \<open>parseTz\<close>

definition parseTz :: "string \<Rightarrow> Location outcome" where
  "parseTz tz =
     (if length tz = 0 then OK UTC
      else if length tz = 1 then
        bind (at0 tz) (\<lambda>c.
        if c \<noteq> CHR ''Z'' then Err (New ''tz 1 char but not Z'') else OK UTC)
      else if length tz = 6 then
        bind (at0 tz) (\<lambda>c.
        bind (if c = CHR ''+'' then OK (1 :: int)
              else if c = CHR ''-'' then OK (- 1)
              else Err (New ''timezone must start from + or -'')) (\<lambda>sign.
        bind (lift (exactInt (drop 1 tz) 2)) (\<lambda>(hz, s).
        if hz > 14 then Err (New ''max timezone hour is 14'') else
        bind (at0 s) (\<lambda>c.
        if c \<noteq> CHR '':'' then
          Err (New ''expected : in dateTime format after 2 digit timezone hour'') else
        bind (lift (exactInt (drop 1 s) 2)) (\<lambda>(mz, s).
        OK (FixedZone tz (sign * ((hz * 60) + mz) * 60)))))))
      else Err (New ''timezone requires exactly 6 characters if not Z''))"

section \<open>Parse\<close>

text \<open>
  The strict scanner.  Each line of the Go function is one line here: \<open>at0 s\<close> is the
  index expression \<open>s[0]\<close>, \<open>drop 1 s\<close> is \<open>s[1:]\<close>, and \<open>bind\<close> passes on an error
  return.  \<open>time.Date\<close> has no error result, and \<open>Parse\<close> returns its value with a
  \<open>nil\<close> error.
\<close>

definition Parse :: "string \<Rightarrow> Time outcome" where
  "Parse s0 =
     bind (at0 s0) (\<lambda>c.
     bind (if c = CHR ''-'' then OK (- 1 :: int, drop 1 s0)
           else if c = CHR ''+'' then Err (New ''+ before year not allowed'')
           else OK (1, s0)) (\<lambda>(sign, s).
     bind (lift (exactInt s 4)) (\<lambda>(year, s).
     bind (at0 s) (\<lambda>c.
     if c \<noteq> CHR ''-'' then
       Err (New ''expected - in dateTime format after 4 digit year'') else
     bind (lift (exactInt (drop 1 s) 2)) (\<lambda>(month, s).
     bind (at0 s) (\<lambda>c.
     if c \<noteq> CHR ''-'' then
       Err (New ''expected - in dateTime format after 2 digit month'') else
     bind (lift (exactInt (drop 1 s) 2)) (\<lambda>(day, s).
     bind (at0 s) (\<lambda>c.
     if c \<noteq> CHR ''T'' then Err (New ''expected T in dateTime format'') else
     bind (lift (exactInt (drop 1 s) 2)) (\<lambda>(hour, s).
     bind (at0 s) (\<lambda>c.
     if c \<noteq> CHR '':'' then
       Err (New ''expected : in dateTime format after 2 digit hour'') else
     bind (lift (exactInt (drop 1 s) 2)) (\<lambda>(minute, s).
     bind (at0 s) (\<lambda>c.
     if c \<noteq> CHR '':'' then
       Err (New ''expected : in dateTime format after 2 digit minute'') else
     bind (lift (exactInt (drop 1 s) 2)) (\<lambda>(second, s).
     bind (if length s > 0 \<and> s ! 0 = CHR ''.''
           then lift (parseFractionalSecond (drop 1 s)) else OK (0, s)) (\<lambda>(nsec, s).
     bind (parseTz s) (\<lambda>loc.
     OK (Date (year * sign) month day hour minute second nsec loc))))))))))))))))"

section \<open>The pattern \<open>xmlDateTimeRe\<close>\<close>

text \<open>
  \<open>xmlDateTimeRe.FindStringSubmatch(s)\<close> for the pattern

  \<^verbatim>\<open>^(?P<year>-?\d{4})-(?P<month>\d{2})-(?P<day>\d{2})T(?P<hour>\d{2}):(?P<min>\d{2}):(?P<sec>\d{2})\<close>
  \<^verbatim>\<open>(?:\.(?P<frac>\d+))?(?:(?:(?P<tzh>[+-]\d{2}):(?P<tzm>\d{2}))|Z)?$\<close>

  The result is \<open>nil\<close> (here the empty list) when the string does not match, and else
  the whole match followed by the nine groups, a group that took no part being the empty
  string.  The pattern is anchored at both ends and is read from left to right; \<open>\d\<close>
  is an ASCII digit and \<open>$\<close> is the end of the text.
\<close>

text \<open>\<^verbatim>\<open>\d{n}\<close>: exactly \<open>n\<close> digits; the group and the rest.\<close>

definition re_digits :: "nat \<Rightarrow> string \<Rightarrow> (string \<times> string) option" where
  "re_digits n s =
     (if n \<le> length s \<and> list_all is_digit (take n s) then Some (take n s, drop n s)
      else None)"

text \<open>A literal byte.\<close>

definition re_lit :: "char \<Rightarrow> string \<Rightarrow> string option" where
  "re_lit c s = (case s of [] \<Rightarrow> None | x # xs \<Rightarrow> if x = c then Some xs else None)"

text \<open>\<^verbatim>\<open>(?P<year>-?\d{4})\<close>\<close>

definition re_year :: "string \<Rightarrow> (string \<times> string) option" where
  "re_year s =
     (case re_lit (CHR ''-'') s of
        Some s' \<Rightarrow> map_option (\<lambda>(g, r). (CHR ''-'' # g, r)) (re_digits 4 s')
      | None \<Rightarrow> re_digits 4 s)"

text \<open>
  \<^verbatim>\<open>(?:\.(?P<frac>\d+))?\<close>: after a dot, the longest run of digits, which must not be
  empty.  A shorter run, or leaving the group out at a dot, cannot lead to a match: what
  follows in the pattern starts with a sign or \<open>Z\<close> or is the end of the text.
\<close>

definition re_frac :: "string \<Rightarrow> (string \<times> string) option" where
  "re_frac s =
     (case re_lit (CHR ''.'') s of
        Some s' \<Rightarrow>
          if takeWhile is_digit s' = [] then None
          else Some (takeWhile is_digit s', dropWhile is_digit s')
      | None \<Rightarrow> Some ([], s))"

text \<open>
  \<^verbatim>\<open>(?:(?:(?P<tzh>[+-]\d{2}):(?P<tzm>\d{2}))|Z)?$\<close>: the groups \<open>tzh\<close> and \<open>tzm\<close>.
\<close>

definition re_tz :: "string \<Rightarrow> (string \<times> string) option" where
  "re_tz s =
     (if s = [] then Some ([], [])
      else if s = ''Z'' then Some ([], [])
      else if hd s = CHR ''+'' \<or> hd s = CHR ''-'' then
        Option.bind (re_digits 2 (tl s)) (\<lambda>(h, s2).
        Option.bind (re_lit (CHR '':'') s2) (\<lambda>s3.
        Option.bind (re_digits 2 s3) (\<lambda>(m, s4).
        if s4 = [] then Some (hd s # h, m) else None)))
      else None)"

text \<open>The groups of a match, in the order of the pattern.\<close>

definition re_groups :: "string \<Rightarrow> string list option" where
  "re_groups s =
     Option.bind (re_year s) (\<lambda>(year, s).
     Option.bind (re_lit (CHR ''-'') s) (\<lambda>s.
     Option.bind (re_digits 2 s) (\<lambda>(month, s).
     Option.bind (re_lit (CHR ''-'') s) (\<lambda>s.
     Option.bind (re_digits 2 s) (\<lambda>(day, s).
     Option.bind (re_lit (CHR ''T'') s) (\<lambda>s.
     Option.bind (re_digits 2 s) (\<lambda>(hour, s).
     Option.bind (re_lit (CHR '':'') s) (\<lambda>s.
     Option.bind (re_digits 2 s) (\<lambda>(minute, s).
     Option.bind (re_lit (CHR '':'') s) (\<lambda>s.
     Option.bind (re_digits 2 s) (\<lambda>(sec, s).
     Option.bind (re_frac s) (\<lambda>(frac, s).
     Option.bind (re_tz s) (\<lambda>(tzh, tzm).
     Some [year, month, day, hour, minute, sec, frac, tzh, tzm])))))))))))))"

definition FindStringSubmatch :: "string \<Rightarrow> string list" where
  "FindStringSubmatch s = (case re_groups s of None \<Rightarrow> [] | Some groups \<Rightarrow> s # groups)"

section \<open>ParseRe and ParseRe2\<close>

text \<open>The anonymous struct \<open>res\<close> of both functions, initialised with \<open>loc: time.UTC\<close>.\<close>

record res =
  res_year :: int
  res_month :: int
  res_day :: int
  res_hour :: int
  res_minute :: int
  res_second :: int
  res_nsecond :: int
  res_loc :: Location

definition res0 :: res where
  "res0 = \<lparr> res_year = 0, res_month = 0, res_day = 0, res_hour = 0, res_minute = 0,
            res_second = 0, res_nsecond = 0, res_loc = UTC \<rparr>"

text \<open>
  The loop of \<open>ParseRe\<close> over the six pairs of a pointer into \<open>res\<close> and a width.  A
  pointer is modelled by the assignment through it.  The state is \<open>res\<close> and \<open>consumed\<close>.
\<close>

fun ParseRe_loop ::
  "string list \<Rightarrow> ((int \<Rightarrow> res \<Rightarrow> res) \<times> nat) list \<Rightarrow> res \<times> nat \<Rightarrow> error + (res \<times> nat)" where
  "ParseRe_loop sub [] (r, consumed) = Inr (r, consumed)"
| "ParseRe_loop sub ((val, l) # vs) (r, consumed) =
     (case ParseInt (sub ! consumed) 64 of
        Inl err \<Rightarrow> Inl err
      | Inr w \<Rightarrow> ParseRe_loop sub vs (val w r, consumed + 1))"

definition ParseRe :: "string \<Rightarrow> Time outcome" where
  "ParseRe s =
     (let sub = FindStringSubmatch s in
      if length sub = 0 then Err (New ''does not match format'') else
      bind (lift (ParseRe_loop sub
             [(\<lambda>w r. r\<lparr>res_year := w\<rparr>, 4), (\<lambda>w r. r\<lparr>res_month := w\<rparr>, 2),
              (\<lambda>w r. r\<lparr>res_day := w\<rparr>, 2), (\<lambda>w r. r\<lparr>res_hour := w\<rparr>, 2),
              (\<lambda>w r. r\<lparr>res_minute := w\<rparr>, 2), (\<lambda>w r. r\<lparr>res_second := w\<rparr>, 2)]
             (res0, 1))) (\<lambda>(r, consumed).
      bind (if sub ! consumed \<noteq> []
            then bind (lift (parseFractionalSecond (sub ! 7))) (\<lambda>(nsec, _).
                 OK (r\<lparr>res_nsecond := nsec\<rparr>))
            else OK r) (\<lambda>r.
      bind (if length sub \<ge> 9 \<and> (sub ! 8 \<noteq> [] \<or> sub ! 9 \<noteq> [])
            then (case ParseInt (sub ! 8) 32 of
                    Inl err \<Rightarrow> Err (New ''cannot parse zone hour'')
                  | Inr tmh \<Rightarrow>
                      if tmh > 14 then Err (New ''max timezone hour is 14'')
                      else (case ParseInt (sub ! 9) 32 of
                              Inl err \<Rightarrow> Err (New ''cannot parse zone minute'')
                            | Inr tmm \<Rightarrow>
                                OK (r\<lparr>res_loc := FixedZone [] (((tmh * 60) + tmm) * 60)\<rparr>)))
            else OK r) (\<lambda>r.
      OK (Date (res_year r) (res_month r) (res_day r)
               (res_hour r) (res_minute r) (res_second r) (res_nsecond r) (res_loc r))))))"

definition ParseRe2 :: "string \<Rightarrow> Time outcome" where
  "ParseRe2 s =
     (let sub = FindStringSubmatch s in
      if length sub = 0 then Err (New ''does not match format'') else
      bind (lift (ParseInt (sub ! 1) 64)) (\<lambda>w.
      bind (OK (res0\<lparr>res_year := w\<rparr>)) (\<lambda>r.
      bind (lift (ParseInt (sub ! 2) 64)) (\<lambda>w.
      bind (OK (r\<lparr>res_month := w\<rparr>)) (\<lambda>r.
      bind (lift (ParseInt (sub ! 3) 64)) (\<lambda>w.
      bind (OK (r\<lparr>res_day := w\<rparr>)) (\<lambda>r.
      bind (lift (ParseInt (sub ! 4) 64)) (\<lambda>w.
      bind (OK (r\<lparr>res_hour := w\<rparr>)) (\<lambda>r.
      bind (lift (ParseInt (sub ! 5) 64)) (\<lambda>w.
      bind (OK (r\<lparr>res_minute := w\<rparr>)) (\<lambda>r.
      bind (lift (ParseInt (sub ! 6) 64)) (\<lambda>w.
      bind (OK (r\<lparr>res_second := w\<rparr>)) (\<lambda>r.
      bind (if sub ! 7 \<noteq> []
            then bind (lift (parseFractionalSecond (sub ! 7))) (\<lambda>(nsec, _).
                 OK (r\<lparr>res_nsecond := nsec\<rparr>))
            else OK r) (\<lambda>r.
      bind (if length sub \<ge> 8 \<and> (sub ! 8 \<noteq> [] \<or> sub ! 9 \<noteq> [])
            then (case ParseInt (sub ! 8) 32 of
                    Inl err \<Rightarrow> Err (New ''cannot parse zone hour'')
                  | Inr tmh \<Rightarrow>
                      if tmh > 14 then Err (New ''max timezone hour is 14'')
                      else (case ParseInt (sub ! 9) 32 of
                              Inl err \<Rightarrow> Err (New ''cannot parse zone minute'')
                            | Inr tmm \<Rightarrow>
                                OK (r\<lparr>res_loc := FixedZone [] (((tmh * 60) + tmm) * 60)\<rparr>)))
            else OK r) (\<lambda>r.
      OK (Date (res_year r) (res_month r) (res_day r)
               (res_hour r) (res_minute r) (res_second r) (res_nsecond r) (res_loc r)))))))))))))))))"

section \<open>Formatting\<close>

text \<open>The decimal digits of a natural number.\<close>

definition digit_char :: "nat \<Rightarrow> char" where
  "digit_char n = ''0123456789'' ! n"

function dec_nat :: "nat \<Rightarrow> string" where
  "dec_nat n = (if n < 10 then [digit_char n] else dec_nat (n div 10) @ [digit_char (n mod 10)])"
  by pat_completeness auto
termination
  by (relation "measure id") auto

definition pad0 :: "nat \<Rightarrow> string \<Rightarrow> string" where
  "pad0 width ds = replicate (width - length ds) (CHR ''0'') @ ds"

text \<open>
  The \<open>time\<close> package's \<open>appendInt(b, x, width)\<close>: a minus sign for a negative number,
  then the magnitude padded with zeros to the width.
\<close>

definition appendInt :: "int \<Rightarrow> nat \<Rightarrow> string" where
  "appendInt x width =
     (if x < 0 then CHR ''-'' # pad0 width (dec_nat (nat (- x)))
      else pad0 width (dec_nat (nat x)))"

text \<open>\<open>t.Format("2006-01-02T15:04:05")\<close>\<close>

definition Format_layout :: "Time \<Rightarrow> string" where
  "Format_layout t =
     appendInt (Year t) 4 @ ''-'' @ appendInt (Month t) 2 @ ''-'' @ appendInt (Day t) 2 @ ''T'' @
     appendInt (Hour t) 2 @ '':'' @ appendInt (Minute t) 2 @ '':'' @ appendInt (Second t) 2"

text \<open>
  \<open>fmt.Sprintf\<close> with the verb \<open>%0wd\<close>: the number is padded with zeros to the width
  \<open>w\<close>, and the sign of a negative number takes one place of the width.
\<close>

definition Sprintf_0d :: "nat \<Rightarrow> int \<Rightarrow> string" where
  "Sprintf_0d width x =
     (if x < 0 then CHR ''-'' # pad0 (width - 1) (dec_nat (nat (- x)))
      else pad0 width (dec_nat (nat x)))"

text \<open>\<open>strings.TrimRight(s, "0")\<close>\<close>

definition TrimRight0 :: "string \<Rightarrow> string" where
  "TrimRight0 s = rev (dropWhile (\<lambda>c. c = CHR ''0'') (rev s))"

text \<open>Go's integer division truncates towards zero.\<close>

definition quo :: "int \<Rightarrow> int \<Rightarrow> int" where
  "quo a b = (if (a < 0) = (b < 0) then \<bar>a\<bar> div \<bar>b\<bar> else - (\<bar>a\<bar> div \<bar>b\<bar>))"

section \<open>stringify\<close>

text \<open>
  \<open>t.Location()\<close> is never \<open>nil\<close>, so the test \<open>loc != nil\<close> holds; \<open>t.Zone()\<close> gives
  the offset of the location.
\<close>

definition stringify :: "Time \<Rightarrow> string" where
  "stringify t =
     (let v = Format_layout t;
          v = (if Nanosecond t > 0
               then v @ TrimRight0 (''.'' @ Sprintf_0d 9 (Nanosecond t)) else v);
          offset = zone_offset (t_loc t)
      in if offset \<noteq> 0 then
           (let minutes = quo offset 60;
                hours = quo minutes 60;
                v = (if hours > 0 then v @ ''+'' else v)
            in v @ Sprintf_0d 3 hours @ '':'' @ Sprintf_0d 2 (minutes - 60 * hours))
         else v)"

section \<open>cutOut\<close>

text \<open>
  The helper of the test \<open>TestParseIncorrect\<close>: the string without the byte at index
  \<open>i\<close>, for \<open>0 <= i < len(s)\<close>.
\<close>

definition cutOut :: "string \<Rightarrow> nat \<Rightarrow> string" where
  "cutOut s i =
     (if i = 0 then drop 1 s
      else if int i = int (length s) - 1 then take i s
      else take i s @ drop (i + 1) s)"

section \<open>Reference values for the claims\<close>

text \<open>
  The number a string of decimal digits denotes.  It is the reading of ``the digits,
  left-aligned'' against which \<open>parseFractionalSecond\<close> is compared: \<open>k\<close> digits
  \<open>ds\<close> after the point stand for \<open>digits_value ds * 10^(9 - k)\<close> nanoseconds.
\<close>

definition digits_value :: "string \<Rightarrow> int" where
  "digits_value ds = foldl (\<lambda>n c. n * 10 + int (digit_val c)) 0 ds"

section \<open>The loop of parseFractionalSecond\<close>

declare frac_loop.simps [simp del]

lemma frac_loop_digits:
  "list_all is_digit s \<Longrightarrow> i \<le> length s \<Longrightarrow> i \<le> 10 \<Longrightarrow>
   frac_loop s i ld ns =
     (min (length s) 10,
      if i < min (length s) 10 then int (digit_val (s ! (min (length s) 10 - 1))) else ld,
      foldl (\<lambda>n c. n * 10 + int (digit_val c)) ns (take (min (length s) 10 - i) (drop i s)))"
proof (induction s i ld ns rule: frac_loop.induct)
  case (1 s i lastDigit nsec)
  show ?case
  proof (cases "i < length s \<and> i < 10")
    case True
    then have d: "is_digit (s ! i)"
      using "1.prems"(1) by (simp add: list_all_length)
    have step: "frac_loop s i lastDigit nsec =
        frac_loop s (i + 1) (int (digit_val (s ! i))) (nsec * 10 + int (digit_val (s ! i)))"
      using True d by (subst frac_loop.simps) simp
    have ih: "frac_loop s (i + 1) (int (digit_val (s ! i))) (nsec * 10 + int (digit_val (s ! i))) =
      (min (length s) 10,
       if i + 1 < min (length s) 10 then int (digit_val (s ! (min (length s) 10 - 1)))
       else int (digit_val (s ! i)),
       foldl (\<lambda>n c. n * 10 + int (digit_val c)) (nsec * 10 + int (digit_val (s ! i)))
         (take (min (length s) 10 - (i + 1)) (drop (i + 1) s)))"
      using "1.IH" [OF _ "1.prems"(1)] True d by simp
    have dr: "drop i s = s ! i # drop (i + 1) s"
      using True by (simp add: Cons_nth_drop_Suc)
    have tk: "take (min (length s) 10 - i) (drop i s) =
        s ! i # take (min (length s) 10 - (i + 1)) (drop (i + 1) s)"
    proof -
      have "min (length s) 10 - i = Suc (min (length s) 10 - (i + 1))" using True by arith
      then show ?thesis using dr by simp
    qed
    have last: "\<not> i + 1 < min (length s) 10 \<Longrightarrow> min (length s) 10 - 1 = i"
      using True by arith
    show ?thesis
      unfolding step ih tk using True last by auto
  next
    case False
    then have "frac_loop s i lastDigit nsec = (i, lastDigit, nsec)"
      by (subst frac_loop.simps) auto
    moreover have "min (length s) 10 = i" using False "1.prems" by auto
    ultimately show ?thesis by simp
  qed
qed

lemma frac_loop_all:
  "list_all is_digit s \<Longrightarrow>
   frac_loop s 0 0 0 =
     (min (length s) 10,
      if s = [] then 0 else int (digit_val (s ! (min (length s) 10 - 1))),
      digits_value (take 10 s))"
  using frac_loop_digits [of s 0 0 0] by (auto simp: digits_value_def min_def)

lemma digit_val_0: "digit_val (CHR ''0'') = 0"
  by (simp add: digit_val_def)

lemma digit_val_eq_0: "is_digit c \<Longrightarrow> digit_val c = 0 \<longleftrightarrow> c = CHR ''0''"
proof -
  assume d: "is_digit c"
  have "of_char c = (48::nat) \<longleftrightarrow> c = CHR ''0''"
  proof
    assume "of_char c = (48::nat)"
    then have "(of_char c :: nat) = of_char (CHR ''0'')" by simp
    then show "c = CHR ''0''" by (simp only: of_char_eq_iff)
  next
    assume "c = CHR ''0''" then show "of_char c = (48::nat)" by simp
  qed
  then show ?thesis using d by (auto simp: digit_val_def is_digit_def)
qed

lemma parseFractionalSecond_empty: "isl (parseFractionalSecond [])"
  by (simp add: parseFractionalSecond_def frac_loop.simps)

lemma parseFractionalSecond_trailing_zero:
  assumes "ds \<noteq> []" "list_all is_digit ds" "last ds = CHR ''0''"
  shows "isl (parseFractionalSecond ds)"
proof (cases "length ds \<le> 10")
  case True
  then have "ds ! (min (length ds) 10 - 1) = last ds"
    using assms(1) by (simp add: last_conv_nth min_def)
  then show ?thesis
    using assms by (simp add: parseFractionalSecond_def frac_loop_all digit_val_0)
next
  case False
  then show ?thesis
    using assms by (simp add: parseFractionalSecond_def frac_loop_all min_def)
qed

lemma parseFractionalSecond_too_long:
  assumes "list_all is_digit ds" "length ds > 9"
  shows "isl (parseFractionalSecond ds)"
proof -
  have "min (length ds) 10 = 10" using assms(2) by simp
  moreover have "ds \<noteq> []" using assms(2) by auto
  ultimately show ?thesis
    using assms by (simp add: parseFractionalSecond_def frac_loop_all)
qed

lemma parseFractionalSecond_value:
  assumes "list_all is_digit ds" "ds \<noteq> []" "length ds \<le> 9" "last ds \<noteq> CHR ''0''"
  shows "parseFractionalSecond ds = Inr (digits_value ds * 10 ^ (9 - length ds), [])"
proof -
  have m: "min (length ds) 10 = length ds" using assms(3) by simp
  have l: "ds ! (length ds - 1) = last ds" using assms(2) by (simp add: last_conv_nth)
  have "is_digit (last ds)" using assms(1,2) by (simp add: list_all_iff)
  then have nz: "digit_val (last ds) \<noteq> 0" using assms(4) by (simp add: digit_val_eq_0)
  have fl: "frac_loop ds 0 0 0 = (length ds, int (digit_val (last ds)), digits_value ds)"
    unfolding frac_loop_all [OF assms(1)] m l using assms(2,3) by simp
  show ?thesis
    using assms(2,3) nz by (simp add: parseFractionalSecond_def fl)
qed

section \<open>C7: the fractional second\<close>

text \<open>
  C7.  \<open>parseFractionalSecond\<close> reads its digits left-aligned in nanoseconds and keeps to
  the canonical form: \<open>1\<close> gives 100000000, \<open>09251\<close> gives 92510000 and \<open>000000001\<close>
  gives 1; the empty string is an error; a string of digits that ends in \<open>0\<close> is an error;
  a string of more than nine digits is an error (it is not cut off); and one to nine
  digits not ending in \<open>0\<close> give the number they denote, scaled to nine places, with
  nothing left over.
\<close>

theorem parseFractionalSecond_canonical:
  "parseFractionalSecond ''1'' = Inr (100000000, []) \<and>
   parseFractionalSecond ''09251'' = Inr (92510000, []) \<and>
   parseFractionalSecond ''000000001'' = Inr (1, []) \<and>
   isl (parseFractionalSecond []) \<and>
   (ds \<noteq> [] \<and> list_all is_digit ds \<and> last ds = CHR ''0'' \<longrightarrow>
      isl (parseFractionalSecond ds)) \<and>
   (list_all is_digit ds \<and> length ds > 9 \<longrightarrow> isl (parseFractionalSecond ds)) \<and>
   (list_all is_digit ds \<and> ds \<noteq> [] \<and> length ds \<le> 9 \<and> last ds \<noteq> CHR ''0'' \<longrightarrow>
      parseFractionalSecond ds = Inr (digits_value ds * 10 ^ (9 - length ds), []))"
proof -
  have "parseFractionalSecond ''1'' = Inr (100000000, [])"
    by (simp add: parseFractionalSecond_def frac_loop.simps is_digit_def digit_val_def)
  moreover have "parseFractionalSecond ''09251'' = Inr (92510000, [])"
    by (simp add: parseFractionalSecond_def frac_loop.simps is_digit_def digit_val_def)
  moreover have "parseFractionalSecond ''000000001'' = Inr (1, [])"
    by (simp add: parseFractionalSecond_def frac_loop.simps is_digit_def digit_val_def)
  ultimately show ?thesis
    using parseFractionalSecond_empty parseFractionalSecond_trailing_zero [of ds]
      parseFractionalSecond_too_long [of ds] parseFractionalSecond_value [of ds]
    by blast
qed

theorem parseFractionalSecond_canonical_witness:
  "isl (parseFractionalSecond ''250'') \<and>
   isl (parseFractionalSecond ''12345678912'') \<and>
   parseFractionalSecond ''25'' = Inr (250000000, [])"
  using parseFractionalSecond_canonical [of "''250''"]
    parseFractionalSecond_canonical [of "''12345678912''"]
    parseFractionalSecond_canonical [of "''25''"]
  by (simp add: is_digit_def digits_value_def digit_val_def)

section \<open>Evaluation on concrete inputs\<close>

lemmas eval_int = exactInt_def ParseInt_def ParseUint_def is_digit_def digit_val_def

lemmas eval_re = FindStringSubmatch_def re_groups_def re_year_def re_lit_def re_digits_def
  re_frac_def re_tz_def res0_def

lemmas eval_date = Date_def norm_def daysSinceYear1_def monthStart_def daysBefore_def isLeap_def
  unixEpochDays_def

lemmas eval_fields = Year_def Month_def Day_def Hour_def Minute_def Second_def
  localDays_def localSecs_def yearOfDays_def monthOfYday_def monthStart_def daysBefore_def
  isLeap_def unixEpochDays_def Let_def

lemma replicate_numeral_Cons: "replicate (numeral k) x = x # replicate (pred_numeral k) x"
  by (simp add: numeral_eq_Suc)

lemmas eval_fmt = replicate_numeral_Cons appendInt_def pad0_def dec_nat.simps digit_char_def
  Sprintf_0d_def TrimRight0_def quo_def Nanosecond_def Let_def

section \<open>C8: the timezone\<close>

text \<open>
  C8.  \<open>parseTz\<close> accepts \<open>+14:00\<close> and rejects \<open>+15:00\<close>; it accepts \<open>+02:30\<close> with an
  offset of 150 minutes east of UTC; the empty string and \<open>Z\<close> both give UTC, whose
  offset is zero; a string whose length is not 0, 1 or 6 is an error.
\<close>

theorem parseTz_bounds:
  "parseTz ''+14:00'' = OK (FixedZone ''+14:00'' (14 * 60 * 60)) \<and>
   is_Err (parseTz ''+15:00'') \<and>
   parseTz ''+02:30'' = OK (FixedZone ''+02:30'' (150 * 60)) \<and>
   parseTz [] = OK UTC \<and> parseTz ''Z'' = OK UTC \<and> zone_offset UTC = 0 \<and>
   (length s \<noteq> 0 \<and> length s \<noteq> 1 \<and> length s \<noteq> 6 \<longrightarrow> is_Err (parseTz s))"
proof -
  have "parseTz ''+14:00'' = OK (FixedZone ''+14:00'' (14 * 60 * 60))"
    by (simp add: parseTz_def eval_int)
  moreover have "is_Err (parseTz ''+15:00'')"
    by (simp add: parseTz_def eval_int)
  moreover have "parseTz ''+02:30'' = OK (FixedZone ''+02:30'' (150 * 60))"
    by (simp add: parseTz_def eval_int)
  moreover have "parseTz [] = OK UTC" "parseTz ''Z'' = OK UTC"
    by (simp_all add: parseTz_def)
  moreover have "length s \<noteq> 0 \<and> length s \<noteq> 1 \<and> length s \<noteq> 6 \<longrightarrow> is_Err (parseTz s)"
    by (simp add: parseTz_def)
  ultimately show ?thesis by simp
qed

theorem parseTz_bounds_witness:
  "is_Err (parseTz ''+02'') \<and> is_Err (parseTz ''+02:00Z'')"
  using parseTz_bounds [of "''+02''"] parseTz_bounds [of "''+02:00Z''"] by simp

section \<open>C1: indexing an empty rest\<close>

text \<open>
  C1.  The claim is that \<open>Parse\<close> returns a time or an error for every string and never
  panics.  The function reads \<open>s[0]\<close> without a test of the length at its start and after
  each of the fields year, month, day, hour and minute (only the test for the fraction is
  guarded by \<open>len(s) > 0\<close>): on the empty string, and on a string that ends after one of
  these fields, \<open>Parse\<close> panics.
\<close>

theorem Parse_panics_on_short_input:
  "Parse [] = Panic \<and> Parse ''2017'' = Panic \<and> Parse ''2017-08-16T13:07'' = Panic"
  by (simp add: Parse_def eval_int)

section \<open>C9: signs inside the fields\<close>

text \<open>
  C9.  The claim is that a fixed-width field with a byte that is no digit is an error.
  \<open>exactInt\<close> reads a field with \<open>strconv.ParseInt\<close>, which takes a leading sign: the
  month \<open>+8\<close> is read as 8 and the offset hour \<open>-1\<close> as -1, and \<open>Parse\<close> returns a time.
\<close>

theorem Parse_accepts_signs_in_fields:
  "Parse ''2017-+8-16T13:07:00'' = OK (Date 2017 8 16 13 7 0 0 UTC) \<and>
   Parse ''2017-08-16T13:07:00+-1:00'' =
     OK (Date 2017 8 16 13 7 0 0 (FixedZone ''+-1:00'' (- 3600)))"
  by (simp add: Parse_def parseTz_def eval_int)

section \<open>C3: Parse and ParseRe\<close>

lemma Parse_minus_0230:
  "Parse ''2017-08-16T13:07:00-02:30'' =
     OK (Date 2017 8 16 13 7 0 0 (FixedZone ''-02:30'' (- 9000)))"
  by (simp add: Parse_def parseTz_def eval_int)

lemma ParseRe_minus_0230:
  "ParseRe ''2017-08-16T13:07:00-02:30'' =
     OK (Date 2017 8 16 13 7 0 0 (FixedZone [] (- 5400)))"
  by (simp add: ParseRe_def eval_re eval_int)

lemma Parse_minus_1500:
  "Parse ''2017-08-16T13:07:00-15:00'' = Err (New ''max timezone hour is 14'')"
  by (simp add: Parse_def parseTz_def eval_int)

lemma ParseRe_minus_1500:
  "ParseRe ''2017-08-16T13:07:00-15:00'' =
     OK (Date 2017 8 16 13 7 0 0 (FixedZone [] (- 54000)))"
  by (simp add: ParseRe_def eval_re eval_int)

text \<open>
  C3.  The claim is that \<open>Parse\<close> and \<open>ParseRe\<close> have the same outcome on every string.
  \<open>ParseRe\<close> reads the sign of the offset as part of the hour, \<open>((tmh*60)+tmm)*60\<close>, and
  bounds the hour from above only: for \<open>-02:30\<close> it gives the offset -5400 seconds where
  \<open>Parse\<close> gives -9000, and it accepts \<open>-15:00\<close>, which \<open>Parse\<close> rejects.
\<close>

theorem Parse_ParseRe_differ:
  "Parse ''2017-08-16T13:07:00-02:30'' =
     OK (Date 2017 8 16 13 7 0 0 (FixedZone ''-02:30'' (- 9000))) \<and>
   ParseRe ''2017-08-16T13:07:00-02:30'' =
     OK (Date 2017 8 16 13 7 0 0 (FixedZone [] (- 5400))) \<and>
   Parse ''2017-08-16T13:07:00-15:00'' = Err (New ''max timezone hour is 14'') \<and>
   ParseRe ''2017-08-16T13:07:00-15:00'' =
     OK (Date 2017 8 16 13 7 0 0 (FixedZone [] (- 54000)))"
  using Parse_minus_0230 ParseRe_minus_0230 Parse_minus_1500 ParseRe_minus_1500 by simp

text \<open>The two instants and offsets for \<open>-02:30\<close>, and the two outcomes for \<open>-15:00\<close>.\<close>

theorem Parse_ParseRe_differ_witness:
  "(case Parse ''2017-08-16T13:07:00-02:30'' of OK t \<Rightarrow> (t_unix t, zone_offset (t_loc t)) | _ \<Rightarrow> (0, 0))
     = (1502897820, - 9000) \<and>
   (case ParseRe ''2017-08-16T13:07:00-02:30'' of OK t \<Rightarrow> (t_unix t, zone_offset (t_loc t)) | _ \<Rightarrow> (0, 0))
     = (1502894220, - 5400) \<and>
   is_Err (Parse ''2017-08-16T13:07:00-15:00'') \<and>
   \<not> is_Err (ParseRe ''2017-08-16T13:07:00-15:00'')"
  using Parse_ParseRe_differ by (simp add: eval_date)

section \<open>C5 and C6: the offset that stringify writes\<close>

lemma Date_test:
  "Date 2017 8 16 13 7 0 92510000 (FixedZone ''+02:00'' 7200) =
     \<lparr>t_unix = 1502881620, t_nsec = 92510000, t_loc = FixedZone ''+02:00'' 7200\<rparr>"
  by (simp add: eval_date)

lemma Format_layout_test:
  "Format_layout \<lparr>t_unix = 1502881620, t_nsec = 92510000, t_loc = FixedZone n 7200\<rparr> =
     ''2017-08-16T13:07:00''"
  by (simp add: Format_layout_def eval_fields eval_fmt)

lemma stringify_test:
  "stringify \<lparr>t_unix = 1502881620, t_nsec = 92510000, t_loc = FixedZone n 7200\<rparr> =
     ''2017-08-16T13:07:00.09251+002:00''"
  by (simp add: stringify_def Format_layout_test eval_fmt)

text \<open>
  C5.  The claim is \<open>stringify(Parse(s)) == s\<close> for every canonical string \<open>s\<close>.  For the
  string \<open>2017-08-16T13:07:00.09251+02:00\<close> of the tests \<open>TestCustomTime_MarshalXML\<close> and
  \<open>TestCustomTime_UnmarshalXML\<close>, \<open>Parse\<close> gives the time of the test, and \<open>stringify\<close>
  writes it with the offset \<open>+002:00\<close>.
\<close>

theorem roundtrip_positive_offset:
  "Parse ''2017-08-16T13:07:00.09251+02:00'' =
     OK (Date 2017 8 16 13 7 0 92510000 (FixedZone ''+02:00'' 7200)) \<and>
   stringify (Date 2017 8 16 13 7 0 92510000 (FixedZone ''+02:00'' 7200)) =
     ''2017-08-16T13:07:00.09251+002:00''"
proof -
  have "Parse ''2017-08-16T13:07:00.09251+02:00'' =
      OK (Date 2017 8 16 13 7 0 92510000 (FixedZone ''+02:00'' 7200))"
    by (simp add: Parse_def parseTz_def eval_int parseFractionalSecond_def frac_loop.simps)
  then show ?thesis by (simp add: Date_test stringify_test)
qed

lemma Date_test2:
  "Date 2017 8 16 11 7 0 92510000 (FixedZone ''-02:30'' (- 9000)) =
     \<lparr>t_unix = 1502890620, t_nsec = 92510000, t_loc = FixedZone ''-02:30'' (- 9000)\<rparr>"
  by (simp add: eval_date)

lemma Format_layout_test2:
  "Format_layout \<lparr>t_unix = 1502890620, t_nsec = 92510000, t_loc = FixedZone n (- 9000)\<rparr> =
     ''2017-08-16T11:07:00''"
  by (simp add: Format_layout_def eval_fields eval_fmt)

text \<open>
  C6.  The claim is that a non-zero offset is written as a sign, two digits for the hour,
  a colon and two digits for the minute, \<open>+02:00\<close> for two hours east.  \<open>stringify\<close>
  writes the hour with \<open>%03d\<close> after the \<open>+\<close> of a positive hour, and the minute with its
  own sign: the time of the test \<open>TestCustomTime_MarshalXML\<close> ends in \<open>+002:00\<close>, and an
  offset of -02:30 is written \<open>-02:-30\<close>.
\<close>

theorem stringify_offset_suffix:
  "stringify (Date 2017 8 16 13 7 0 92510000 (FixedZone ''+02:00'' (2 * 60 * 60))) =
     ''2017-08-16T13:07:00.09251+002:00'' \<and>
   stringify (Date 2017 8 16 11 7 0 92510000 (FixedZone ''-02:30'' (- 9000))) =
     ''2017-08-16T11:07:00.09251-02:-30''"
proof -
  have "stringify \<lparr>t_unix = 1502890620, t_nsec = 92510000, t_loc = FixedZone ''-02:30'' (- 9000)\<rparr> =
     ''2017-08-16T11:07:00.09251-02:-30''"
    by (simp add: stringify_def Format_layout_test2 eval_fmt)
  then show ?thesis
    using Date_test Date_test2 stringify_test [of "''+02:00''"] by simp
qed


section \<open>C10: ParseRe and ParseRe2\<close>

text \<open>A match has the whole string and nine groups.\<close>

lemma re_groups_length: "re_groups s = Some gs \<Longrightarrow> length gs = 9"
  by (auto simp: re_groups_def bind_eq_Some_conv)

lemma FindStringSubmatch_length:
  "length (FindStringSubmatch s) = 0 \<or> length (FindStringSubmatch s) = 10"
  by (auto simp: FindStringSubmatch_def split: option.splits dest: re_groups_length)

text \<open>The loop of \<open>ParseRe\<close>, unrolled over its six fields.\<close>

lemma ParseRe_loop_six:
  "ParseRe_loop sub
     [(\<lambda>w r. r\<lparr>res_year := w\<rparr>, 4), (\<lambda>w r. r\<lparr>res_month := w\<rparr>, 2),
      (\<lambda>w r. r\<lparr>res_day := w\<rparr>, 2), (\<lambda>w r. r\<lparr>res_hour := w\<rparr>, 2),
      (\<lambda>w r. r\<lparr>res_minute := w\<rparr>, 2), (\<lambda>w r. r\<lparr>res_second := w\<rparr>, 2)] (r0, 1) =
   (case ParseInt (sub ! 1) 64 of Inl e \<Rightarrow> Inl e | Inr w1 \<Rightarrow>
    case ParseInt (sub ! 2) 64 of Inl e \<Rightarrow> Inl e | Inr w2 \<Rightarrow>
    case ParseInt (sub ! 3) 64 of Inl e \<Rightarrow> Inl e | Inr w3 \<Rightarrow>
    case ParseInt (sub ! 4) 64 of Inl e \<Rightarrow> Inl e | Inr w4 \<Rightarrow>
    case ParseInt (sub ! 5) 64 of Inl e \<Rightarrow> Inl e | Inr w5 \<Rightarrow>
    case ParseInt (sub ! 6) 64 of Inl e \<Rightarrow> Inl e | Inr w6 \<Rightarrow>
      Inr (r0\<lparr>res_year := w1, res_month := w2, res_day := w3, res_hour := w4,
               res_minute := w5, res_second := w6\<rparr>, 7))"
proof -
  have two: "Suc (Suc 0) = 2" by simp
  show ?thesis by (simp add: two split: sum.splits)
qed

text \<open>
  C10.  \<open>ParseRe\<close> and \<open>ParseRe2\<close> have the same outcome on every string: the same
  error, or the same time with the same location.
\<close>

theorem ParseRe_eq_ParseRe2: "ParseRe s = ParseRe2 s"
proof (cases "length (FindStringSubmatch s) = 0")
  case True
  then show ?thesis by (simp add: ParseRe_def ParseRe2_def)
next
  case False
  then have len: "length (FindStringSubmatch s) = 10"
    using FindStringSubmatch_length [of s] by simp
  show ?thesis
    unfolding ParseRe_def ParseRe2_def Let_def ParseRe_loop_six
    using len by (simp split: sum.splits)
qed

theorem ParseRe_eq_ParseRe2_witness:
  "ParseRe ''2017-08-16T13:07:00.09251+02:00'' = ParseRe2 ''2017-08-16T13:07:00.09251+02:00'' \<and>
   ParseRe2 ''2017-08-16T13:07:00.09251+02:00'' =
     OK (Date 2017 8 16 13 7 0 92510000 (FixedZone [] 7200)) \<and>
   ParseRe ''2017-08-1613:07:00'' = ParseRe2 ''2017-08-1613:07:00'' \<and>
   ParseRe2 ''2017-08-1613:07:00'' = Err (New ''does not match format'')"
proof -
  have "ParseRe2 ''2017-08-16T13:07:00.09251+02:00'' =
     OK (Date 2017 8 16 13 7 0 92510000 (FixedZone [] 7200))"
    by (simp add: ParseRe2_def eval_re eval_int parseFractionalSecond_def frac_loop.simps)
  moreover have "ParseRe2 ''2017-08-1613:07:00'' = Err (New ''does not match format'')"
    by (simp add: ParseRe2_def eval_re eval_int)
  ultimately show ?thesis
    using ParseRe_eq_ParseRe2 [of "''2017-08-16T13:07:00.09251+02:00''"]
      ParseRe_eq_ParseRe2 [of "''2017-08-1613:07:00''"] by simp
qed


end
